theory Spec2Isabelle
  imports Complex_Main
begin

section \<open>The browser driver as a capability interface\<close>

text \<open>
  The page object of \<^verbatim>\<open>LoginPage.js\<close> talks to a Playwright \<^verbatim>\<open>Page\<close> and to
  \<^verbatim>\<open>Locator\<close>s created from it. Neither is code of the repository, so the driver is a
  parameter of the model: a record of operations over an arbitrary page state \<open>'p\<close>.
  Every awaited operation either resolves with a value or rejects with an error, and in
  both cases it may leave the page in a new state (time passes while it waits).
\<close>

type_synonym locator = string

text \<open>
  What an awaited driver call can reject with: Playwright's \<^verbatim>\<open>TimeoutError\<close>, or any other
  error (a closed page, a strict-mode violation, ...), kept with its message.
\<close>

datatype error = TimeoutError | DriverError string

type_synonym ('s, 'a) action = "'s \<Rightarrow> (error + 'a) \<times> 's"

record 'p driver =
  goto_op :: "string \<Rightarrow> ('p, unit) action"
  fill_op :: "locator \<Rightarrow> string \<Rightarrow> ('p, unit) action"
  click_op :: "locator \<Rightarrow> ('p, unit) action"
  clear_op :: "locator \<Rightarrow> ('p, unit) action"
  waitFor_op :: "locator \<Rightarrow> string \<Rightarrow> nat option \<Rightarrow> ('p, unit) action"
  waitForURL_op :: "string \<Rightarrow> nat option \<Rightarrow> ('p, unit) action"
  textContent_op :: "locator \<Rightarrow> ('p, string option) action"
  url_op :: "'p \<Rightarrow> string"

text \<open>
  The calls the page object makes on the driver, in the order it makes them. The log is
  kept beside the page state so that "which steps, in which order" can be stated.
  The wait options are the \<^verbatim>\<open>state\<close> string and the \<^verbatim>\<open>timeout\<close> in milliseconds
  (\<open>None\<close> when the source passes none and the driver's default bound applies).
\<close>

datatype call =
  Goto string
  | Fill locator string
  | Click locator
  | Clear locator
  | WaitFor locator string "nat option"
  | WaitForURL string "nat option"
  | TextContent locator
  | Url

record 'p session =
  page :: 'p
  calls :: "call list"

definition perform :: "call \<Rightarrow> ('p, 'a) action \<Rightarrow> ('p session, 'a) action" where
  "perform c f s = (case f (page s) of (r, p') \<Rightarrow> (r, \<lparr>page = p', calls = calls s @ [c]\<rparr>))"

definition page_goto :: "'p driver \<Rightarrow> string \<Rightarrow> ('p session, unit) action" where
  "page_goto d u = perform (Goto u) (goto_op d u)"

definition locator_fill :: "'p driver \<Rightarrow> locator \<Rightarrow> string \<Rightarrow> ('p session, unit) action" where
  "locator_fill d l v = perform (Fill l v) (fill_op d l v)"

definition locator_click :: "'p driver \<Rightarrow> locator \<Rightarrow> ('p session, unit) action" where
  "locator_click d l = perform (Click l) (click_op d l)"

definition locator_clear :: "'p driver \<Rightarrow> locator \<Rightarrow> ('p session, unit) action" where
  "locator_clear d l = perform (Clear l) (clear_op d l)"

definition locator_waitFor ::
  "'p driver \<Rightarrow> locator \<Rightarrow> string \<Rightarrow> nat option \<Rightarrow> ('p session, unit) action" where
  "locator_waitFor d l st t = perform (WaitFor l st t) (waitFor_op d l st t)"

definition page_waitForURL ::
  "'p driver \<Rightarrow> string \<Rightarrow> nat option \<Rightarrow> ('p session, unit) action" where
  "page_waitForURL d pat t = perform (WaitForURL pat t) (waitForURL_op d pat t)"

definition locator_textContent ::
  "'p driver \<Rightarrow> locator \<Rightarrow> ('p session, string option) action" where
  "locator_textContent d l = perform (TextContent l) (textContent_op d l)"

text \<open>\<^verbatim>\<open>page.url()\<close> is synchronous: it reads the URL and leaves the page as it is.\<close>

definition page_url :: "'p driver \<Rightarrow> ('p session, string) action" where
  "page_url d = perform Url (\<lambda>p. (Inr (url_op d p), p))"

subsection \<open>Sequencing, returning and try/catch\<close>

definition resolve :: "'a \<Rightarrow> ('s, 'a) action" where
  "resolve v s = (Inr v, s)"

text \<open>\<^verbatim>\<open>await m; rest\<close>: a rejection of \<open>m\<close> skips the rest and propagates.\<close>

definition andThen :: "('s, 'a) action \<Rightarrow> ('a \<Rightarrow> ('s, 'b) action) \<Rightarrow> ('s, 'b) action" where
  "andThen m f s = (case m s of (Inl e, s') \<Rightarrow> (Inl e, s') | (Inr v, s') \<Rightarrow> f v s')"

text \<open>\<^verbatim>\<open>try { m } catch { h }\<close>: the handler runs on every rejection of \<open>m\<close>.\<close>

definition tryCatch :: "('s, 'a) action \<Rightarrow> (error \<Rightarrow> ('s, 'a) action) \<Rightarrow> ('s, 'a) action" where
  "tryCatch m h s = (case m s of (Inl e, s') \<Rightarrow> h e s' | (Inr v, s') \<Rightarrow> (Inr v, s'))"

section \<open>The login page object\<close>

record LoginPage =
  usernameInput :: locator
  passwordInput :: locator
  loginButton :: locator
  errorMessage :: locator
  errorCloseButton :: locator
  inventoryLogo :: locator

text \<open>The constructor binds the six locators; creating a locator touches nothing.\<close>

definition new_LoginPage :: LoginPage where
  "new_LoginPage =
     \<lparr>usernameInput = ''#user-name'',
      passwordInput = ''#password'',
      loginButton = ''#login-button'',
      errorMessage = ''[data-test=\"error\"]'',
      errorCloseButton = ''.error-button'',
      inventoryLogo = ''.app_logo''\<rparr>"

definition goto :: "'p driver \<Rightarrow> LoginPage \<Rightarrow> ('p session, unit) action" where
  "goto d this = page_goto d ''https://www.saucedemo.com/''"

definition login :: "'p driver \<Rightarrow> LoginPage \<Rightarrow> string \<Rightarrow> string \<Rightarrow> ('p session, unit) action" where
  "login d this username password =
     andThen (locator_fill d (usernameInput this) username) (\<lambda>_.
     andThen (locator_fill d (passwordInput this) password) (\<lambda>_.
     locator_click d (loginButton this)))"


definition isErrorVisible :: "'p driver \<Rightarrow> LoginPage \<Rightarrow> ('p session, bool) action" where
  "isErrorVisible d this =
     tryCatch
       (andThen (locator_waitFor d (errorMessage this) ''visible'' (Some 3000)) (\<lambda>_.
        resolve True))
       (\<lambda>_. resolve False)"

definition isLoginSuccessful :: "'p driver \<Rightarrow> LoginPage \<Rightarrow> ('p session, bool) action" where
  "isLoginSuccessful d this =
     tryCatch
       (andThen (page_waitForURL d ''**/inventory.html'' (Some 5000)) (\<lambda>_.
        andThen (locator_waitFor d (inventoryLogo this) ''visible'' (Some 3000)) (\<lambda>_.
        resolve True)))
       (\<lambda>_. resolve False)"

definition isOnLoginPage :: "'p driver \<Rightarrow> LoginPage \<Rightarrow> ('p session, bool) action" where
  "isOnLoginPage d this =
     andThen (page_url d) (\<lambda>currentUrl.
     resolve (currentUrl = ''https://www.saucedemo.com/'' \<or>
              currentUrl = ''https://www.saucedemo.com/index.html''))"

definition clearInputs :: "'p driver \<Rightarrow> LoginPage \<Rightarrow> ('p session, unit) action" where
  "clearInputs d this =
     andThen (locator_clear d (usernameInput this)) (\<lambda>_.
     locator_clear d (passwordInput this))"


section \<open>The test data module\<close>

text \<open>
  \<^verbatim>\<open>utils/testData.js\<close>. A credential is an object \<^verbatim>\<open>{username, password}\<close>; the module
  creates three of them and binds four names. Objects live in a store and a constant holds
  a reference, so that a name bound to another name's object (an alias) differs from a
  name bound to a copy.
\<close>

record credential =
  username :: string
  password :: string

type_synonym ref = nat

type_synonym store = "ref \<rightharpoonup> credential"

definition VALID_USER :: ref where
  "VALID_USER = 0"

definition STANDARD_USER :: ref where
  "STANDARD_USER = VALID_USER"

definition LOCKED_USER :: ref where
  "LOCKED_USER = 1"

definition INVALID_USER :: ref where
  "INVALID_USER = 2"

definition testData_store :: store where
  "testData_store =
     [VALID_USER \<mapsto> \<lparr>username = ''standard_user'', password = ''secret_sauce''\<rparr>,
      LOCKED_USER \<mapsto> \<lparr>username = ''locked_out_user'', password = ''secret_sauce''\<rparr>,
      INVALID_USER \<mapsto> \<lparr>username = ''invalid_user'', password = ''wrong_password''\<rparr>]"

definition VALID_PASSWORD :: string where
  "VALID_PASSWORD = ''secret_sauce''"

definition INVALID_PASSWORD :: string where
  "INVALID_PASSWORD = ''wrong_password''"

text \<open>
  An object literal is a map from property names to values, built by adding the
  properties in the order they are written (a later one replaces an earlier one of the
  same name).
\<close>

definition PRODUCTS :: "string \<rightharpoonup> string" where
  "PRODUCTS =
     [''BACKPACK'' \<mapsto> ''Sauce Labs Backpack'',
      ''BIKE_LIGHT'' \<mapsto> ''Sauce Labs Bike Light'',
      ''BOLT_TSHIRT'' \<mapsto> ''Sauce Labs Bolt T-Shirt'',
      ''FLEECE_JACKET'' \<mapsto> ''Sauce Labs Fleece Jacket'',
      ''ONESIE'' \<mapsto> ''Sauce Labs Onesie'',
      ''TSHIRT_RED'' \<mapsto> ''Test.allTheThings() T-Shirt (Red)'']"

text \<open>
  A computed key \<^verbatim>\<open>[PRODUCTS.X]\<close> reads the property and turns the result into a property
  name; a missing property reads as \<^verbatim>\<open>undefined\<close>, whose name is the string
  \<^verbatim>\<open>"undefined"\<close>.
\<close>

definition computed_key :: "string option \<Rightarrow> string" where
  "computed_key v = (case v of None \<Rightarrow> ''undefined'' | Some k \<Rightarrow> k)"

text \<open>The prices are the decimal literals as written (the rounding to a double is not modelled).\<close>

definition PRODUCT_PRICES :: "string \<rightharpoonup> rat" where
  "PRODUCT_PRICES =
     [computed_key (PRODUCTS ''ONESIE'') \<mapsto> 7.99,
      computed_key (PRODUCTS ''BIKE_LIGHT'') \<mapsto> 9.99,
      computed_key (PRODUCTS ''BOLT_TSHIRT'') \<mapsto> 15.99,
      computed_key (PRODUCTS ''TSHIRT_RED'') \<mapsto> 15.99,
      computed_key (PRODUCTS ''BACKPACK'') \<mapsto> 29.99,
      computed_key (PRODUCTS ''FLEECE_JACKET'') \<mapsto> 49.99]"

section \<open>A test double for the driver\<close>

text \<open>
  A small stand-in page, used only to run the page object on concrete inputs. It is not a
  model of the browser or of the application under test: it shows an error banner or not,
  a logo or not, has a URL, and can be closed, after which every awaited call rejects with
  an error that is not a timeout.
\<close>

record fake_page =
  fp_url :: string
  fp_banner :: "string option"
  fp_logo :: bool
  fp_closed :: bool

definition fake_call :: "(fake_page \<Rightarrow> (error + 'a) \<times> fake_page) \<Rightarrow> (fake_page, 'a) action" where
  "fake_call f p =
     (if fp_closed p
      then (Inl (DriverError ''Target page, context or browser has been closed''), p)
      else f p)"

definition fake_visible :: "locator \<Rightarrow> fake_page \<Rightarrow> bool" where
  "fake_visible l p =
     (if l = ''[data-test=\"error\"]'' then fp_banner p \<noteq> None
      else if l = ''.app_logo'' then fp_logo p
      else True)"

definition fake_driver :: "fake_page driver" where
  "fake_driver =
     \<lparr>goto_op = (\<lambda>u. fake_call (\<lambda>p. (Inr (), p\<lparr>fp_url := u\<rparr>))),
      fill_op = (\<lambda>l v. fake_call (\<lambda>p. (Inr (), p))),
      click_op = (\<lambda>l. fake_call (\<lambda>p.
         (Inr (), if l = ''.error-button'' then p\<lparr>fp_banner := None\<rparr> else p))),
      clear_op = (\<lambda>l. fake_call (\<lambda>p. (Inr (), p))),
      waitFor_op = (\<lambda>l st t. fake_call (\<lambda>p.
         (if fake_visible l p then Inr () else Inl TimeoutError, p))),
      waitForURL_op = (\<lambda>pat t. fake_call (\<lambda>p.
         (if fp_url p = ''https://www.saucedemo.com/inventory.html''
          then Inr () else Inl TimeoutError, p))),
      textContent_op = (\<lambda>l. fake_call (\<lambda>p. (Inr (fp_banner p), p))),
      url_op = fp_url\<rparr>"

text \<open>The login page with a banner showing, the inventory page, and a closed page.\<close>

definition rejected_page :: fake_page where
  "rejected_page =
     \<lparr>fp_url = ''https://www.saucedemo.com/'',
      fp_banner = Some ''Epic sadface: Sorry, this user has been locked out.'',
      fp_logo = False,
      fp_closed = False\<rparr>"

definition inventory_page :: fake_page where
  "inventory_page =
     \<lparr>fp_url = ''https://www.saucedemo.com/inventory.html'',
      fp_banner = None,
      fp_logo = True,
      fp_closed = False\<rparr>"

definition closed_page :: fake_page where
  "closed_page = rejected_page\<lparr>fp_closed := True\<rparr>"

definition start :: "'p \<Rightarrow> 'p session" where
  "start p = \<lparr>page = p, calls = []\<rparr>"

text \<open>The inventory URL before the logo has appeared.\<close>

definition logoless_page :: fake_page where
  "logoless_page = inventory_page\<lparr>fp_logo := False\<rparr>"



section \<open>Properties of the page object\<close>

lemmas run_defs = perform_def andThen_def tryCatch_def resolve_def
  page_goto_def locator_fill_def locator_click_def locator_clear_def locator_waitFor_def
  page_waitForURL_def locator_textContent_def page_url_def

lemmas fake_defs = fake_driver_def fake_call_def fake_visible_def rejected_page_def
  inventory_page_def closed_page_def start_def new_LoginPage_def

text \<open>
  C1, as the code has it. \<^verbatim>\<open>isErrorVisible()\<close> makes one driver call, a wait for the error
  banner to be visible bounded by 3000 ms. It returns \<open>true\<close> exactly when that wait
  resolves. When the wait times out it returns \<open>false\<close>, and so it does for every other
  error the wait rejects with: the \<^verbatim>\<open>catch\<close> has no binding and no test of the error kind,
  so nothing propagates.
\<close>

theorem isErrorVisible_swallows_every_error:
  "fst (isErrorVisible d new_LoginPage s) =
     Inr (fst (waitFor_op d ''[data-test=\"error\"]'' ''visible'' (Some 3000) (page s)) = Inr ())
   \<and> page (snd (isErrorVisible d new_LoginPage s)) =
       snd (waitFor_op d ''[data-test=\"error\"]'' ''visible'' (Some 3000) (page s))
   \<and> calls (snd (isErrorVisible d new_LoginPage s)) =
       calls s @ [WaitFor ''[data-test=\"error\"]'' ''visible'' (Some 3000)]
   \<and> (fst (waitFor_op d ''[data-test=\"error\"]'' ''visible'' (Some 3000) (page s)) = Inl TimeoutError
        \<longrightarrow> fst (isErrorVisible d new_LoginPage s) = Inr False)
   \<and> (\<forall>e. fst (waitFor_op d ''[data-test=\"error\"]'' ''visible'' (Some 3000) (page s)) = Inl e
        \<longrightarrow> fst (isErrorVisible d new_LoginPage s) = Inr False)"
  by (simp add: isErrorVisible_def new_LoginPage_def run_defs split: prod.splits sum.splits)

text \<open>
  On the test double: with no banner the wait times out and the probe answers \<open>false\<close>;
  with a banner it answers \<open>true\<close>.
\<close>

theorem isErrorVisible_swallows_every_error_witness:
  "fst (waitFor_op fake_driver ''[data-test=\"error\"]'' ''visible'' (Some 3000) inventory_page) =
     Inl TimeoutError
   \<and> fst (isErrorVisible fake_driver new_LoginPage (start inventory_page)) = Inr False
   \<and> fst (isErrorVisible fake_driver new_LoginPage (start rejected_page)) = Inr True"
  using isErrorVisible_swallows_every_error [of fake_driver "start inventory_page"]
    isErrorVisible_swallows_every_error [of fake_driver "start rejected_page"]
  by (simp add: fake_defs)

text \<open>
  C1 as written says that an error other than a timeout propagates. On a closed page the
  wait rejects with an error that is not a timeout, and \<^verbatim>\<open>isErrorVisible()\<close> still
  returns \<open>false\<close>.
\<close>

theorem isErrorVisible_other_error_counterexample:
  "fst (waitFor_op fake_driver (errorMessage new_LoginPage) ''visible'' (Some 3000) closed_page) =
     Inl (DriverError ''Target page, context or browser has been closed'')
   \<and> DriverError ''Target page, context or browser has been closed'' \<noteq> TimeoutError
   \<and> fst (isErrorVisible fake_driver new_LoginPage (start closed_page)) = Inr False
   \<and> fst (isErrorVisible fake_driver new_LoginPage (start closed_page)) \<noteq>
       Inl (DriverError ''Target page, context or browser has been closed'')"
  by (simp add: isErrorVisible_def run_defs fake_defs)

text \<open>
  C2. \<^verbatim>\<open>isLoginSuccessful()\<close> first waits, bounded by 5000 ms, for the URL to match the
  inventory path, and only when that wait resolves does it wait, bounded by 3000 ms, for the
  logo to be visible. It returns \<open>true\<close> if and only if both waits resolve; a timeout of
  the first wait or of the second gives \<open>false\<close>, not an error.
\<close>

theorem isLoginSuccessful_iff_both_waits:
  "(let first = waitForURL_op d ''**/inventory.html'' (Some 5000) (page s);
        second = waitFor_op d ''.app_logo'' ''visible'' (Some 3000) (snd first)
    in fst (isLoginSuccessful d new_LoginPage s) = Inr (fst first = Inr () \<and> fst second = Inr ())
       \<and> calls (snd (isLoginSuccessful d new_LoginPage s)) =
           calls s @ WaitForURL ''**/inventory.html'' (Some 5000) #
             (if fst first = Inr () then [WaitFor ''.app_logo'' ''visible'' (Some 3000)] else [])
       \<and> (fst first = Inl TimeoutError \<longrightarrow> fst (isLoginSuccessful d new_LoginPage s) = Inr False)
       \<and> (fst first = Inr () \<and> fst second = Inl TimeoutError
            \<longrightarrow> fst (isLoginSuccessful d new_LoginPage s) = Inr False))"
  by (simp add: Let_def isLoginSuccessful_def new_LoginPage_def run_defs
      split: prod.splits sum.splits)

text \<open>
  On the test double: the inventory page gives \<open>true\<close>; the login page times out in the
  first wait; the inventory URL without a logo times out in the second.
\<close>

theorem isLoginSuccessful_iff_both_waits_witness:
  "fst (isLoginSuccessful fake_driver new_LoginPage (start inventory_page)) = Inr True
   \<and> fst (waitForURL_op fake_driver ''**/inventory.html'' (Some 5000) rejected_page) = Inl TimeoutError
   \<and> fst (isLoginSuccessful fake_driver new_LoginPage (start rejected_page)) = Inr False
   \<and> fst (waitForURL_op fake_driver ''**/inventory.html'' (Some 5000) logoless_page) = Inr ()
   \<and> fst (waitFor_op fake_driver ''.app_logo'' ''visible'' (Some 3000) logoless_page) = Inl TimeoutError
   \<and> fst (isLoginSuccessful fake_driver new_LoginPage (start logoless_page)) = Inr False"
  using isLoginSuccessful_iff_both_waits [of fake_driver "start inventory_page"]
    isLoginSuccessful_iff_both_waits [of fake_driver "start rejected_page"]
    isLoginSuccessful_iff_both_waits [of fake_driver "start logoless_page"]
  by (simp add: Let_def fake_defs logoless_page_def)



text \<open>
  C6. \<^verbatim>\<open>login(username, password)\<close> makes exactly three driver calls, in this order: fill
  the username field with \<open>username\<close>, fill the password field with \<open>password\<close>, click
  the login button; its outcome is the click's. Nothing precedes the first fill, whatever
  the two strings are (the empty string included), and the only errors it returns are those
  of the driver calls: there is no validation of its own.
\<close>

theorem login_three_steps_in_order:
  "(\<forall>p1 p2. fill_op d ''#user-name'' u (page s) = (Inr (), p1)
        \<and> fill_op d ''#password'' pw p1 = (Inr (), p2)
      \<longrightarrow> fst (login d new_LoginPage u pw s) = fst (click_op d ''#login-button'' p2)
        \<and> page (snd (login d new_LoginPage u pw s)) = snd (click_op d ''#login-button'' p2)
        \<and> calls (snd (login d new_LoginPage u pw s)) =
            calls s @ [Fill ''#user-name'' u, Fill ''#password'' pw, Click ''#login-button''])
   \<and> (\<exists>rest. calls (snd (login d new_LoginPage u pw s)) = calls s @ Fill ''#user-name'' u # rest)
   \<and> (\<forall>e p1. fill_op d ''#user-name'' u (page s) = (Inl e, p1)
      \<longrightarrow> login d new_LoginPage u pw s =
            (Inl e, \<lparr>page = p1, calls = calls s @ [Fill ''#user-name'' u]\<rparr>))
   \<and> (\<forall>e p1 p2. fill_op d ''#user-name'' u (page s) = (Inr (), p1)
        \<and> fill_op d ''#password'' pw p1 = (Inl e, p2)
      \<longrightarrow> login d new_LoginPage u pw s =
            (Inl e, \<lparr>page = p2, calls = calls s @ [Fill ''#user-name'' u, Fill ''#password'' pw]\<rparr>))"
  by (auto simp add: login_def new_LoginPage_def run_defs split: prod.splits sum.splits)

text \<open>
  On the test double: two empty strings go through the three steps; on a closed page the
  first fill rejects and \<^verbatim>\<open>login\<close> returns that error.
\<close>

theorem login_three_steps_in_order_witness:
  "fill_op fake_driver ''#user-name'' '''' rejected_page = (Inr (), rejected_page)
   \<and> fill_op fake_driver ''#password'' '''' rejected_page = (Inr (), rejected_page)
   \<and> fst (login fake_driver new_LoginPage '''' '''' (start rejected_page)) = Inr ()
   \<and> calls (snd (login fake_driver new_LoginPage '''' '''' (start rejected_page))) =
       [Fill ''#user-name'' '''', Fill ''#password'' '''', Click ''#login-button'']
   \<and> fill_op fake_driver ''#user-name'' ''standard_user'' closed_page =
       (Inl (DriverError ''Target page, context or browser has been closed''), closed_page)
   \<and> fst (login fake_driver new_LoginPage ''standard_user'' ''secret_sauce'' (start closed_page)) =
       Inl (DriverError ''Target page, context or browser has been closed'')"
proof -
  have fills:
    "fill_op fake_driver ''#user-name'' '''' (page (start rejected_page)) = (Inr (), rejected_page)
     \<and> fill_op fake_driver ''#password'' '''' rejected_page = (Inr (), rejected_page)"
    by (simp add: fake_defs)
  have click: "click_op fake_driver ''#login-button'' rejected_page = (Inr (), rejected_page)"
    by (simp add: fake_defs)
  have closed:
    "fill_op fake_driver ''#user-name'' ''standard_user'' (page (start closed_page)) =
       (Inl (DriverError ''Target page, context or browser has been closed''), closed_page)"
    by (simp add: fake_defs)
  have accepted:
    "fst (login fake_driver new_LoginPage '''' '''' (start rejected_page)) = Inr ()
     \<and> calls (snd (login fake_driver new_LoginPage '''' '''' (start rejected_page))) =
         [Fill ''#user-name'' '''', Fill ''#password'' '''', Click ''#login-button'']"
    using login_three_steps_in_order [of fake_driver "''''" "start rejected_page" "''''",
        THEN conjunct1, rule_format, OF fills]
    by (simp add: click start_def)
  have raised:
    "fst (login fake_driver new_LoginPage ''standard_user'' ''secret_sauce'' (start closed_page)) =
       Inl (DriverError ''Target page, context or browser has been closed'')"
    using login_three_steps_in_order [of fake_driver "''standard_user''" "start closed_page"
        "''secret_sauce''", THEN conjunct2, THEN conjunct2, THEN conjunct1, rule_format, OF closed]
    by simp
  from fills closed accepted raised show ?thesis
    by (simp add: start_def)
qed

text \<open>
  C7. \<^verbatim>\<open>isOnLoginPage()\<close> reads the current URL once, waits for nothing and leaves the page
  as it is; it returns \<open>true\<close> if and only if that URL is exactly
  \<^verbatim>\<open>https://www.saucedemo.com/\<close> or \<^verbatim>\<open>https://www.saucedemo.com/index.html\<close>.
\<close>

theorem isOnLoginPage_iff_login_url:
  "fst (isOnLoginPage d this s) =
     Inr (url_op d (page s) \<in>
            {''https://www.saucedemo.com/'', ''https://www.saucedemo.com/index.html''})
   \<and> page (snd (isOnLoginPage d this s)) = page s
   \<and> calls (snd (isOnLoginPage d this s)) = calls s @ [Url]"
  by (simp add: isOnLoginPage_def run_defs)

text \<open>On the test double: the login page is recognised, the inventory page is not.\<close>

theorem isOnLoginPage_iff_login_url_witness:
  "fst (isOnLoginPage fake_driver new_LoginPage (start rejected_page)) = Inr True
   \<and> fst (isOnLoginPage fake_driver new_LoginPage (start inventory_page)) = Inr False"
  using isOnLoginPage_iff_login_url [of fake_driver new_LoginPage "start rejected_page"]
    isOnLoginPage_iff_login_url [of fake_driver new_LoginPage "start inventory_page"]
  by (simp add: fake_driver_def rejected_page_def inventory_page_def start_def)

text \<open>
  C10. Neither probe lets an error out. For every driver and every page,
  \<^verbatim>\<open>isErrorVisible()\<close> and \<^verbatim>\<open>isLoginSuccessful()\<close> return a boolean, and whatever error
  a wait inside them rejects with, timeout or not, the result is \<open>false\<close>.
\<close>

theorem probes_never_raise:
  "(\<exists>b. fst (isErrorVisible d new_LoginPage s) = Inr b)
   \<and> (\<exists>b. fst (isLoginSuccessful d new_LoginPage s) = Inr b)
   \<and> (\<forall>e. fst (locator_waitFor d (errorMessage new_LoginPage) ''visible'' (Some 3000) s) = Inl e
        \<longrightarrow> fst (isErrorVisible d new_LoginPage s) = Inr False)
   \<and> (\<forall>e. fst (page_waitForURL d ''**/inventory.html'' (Some 5000) s) = Inl e
        \<longrightarrow> fst (isLoginSuccessful d new_LoginPage s) = Inr False)
   \<and> (\<forall>e s1. page_waitForURL d ''**/inventory.html'' (Some 5000) s = (Inr (), s1)
          \<and> fst (locator_waitFor d (inventoryLogo new_LoginPage) ''visible'' (Some 3000) s1) = Inl e
        \<longrightarrow> fst (isLoginSuccessful d new_LoginPage s) = Inr False)"
  by (auto simp add: isErrorVisible_def isLoginSuccessful_def run_defs
      split: prod.splits sum.splits)

text \<open>On the test double: a closed page rejects both waits with an error that is not a timeout.\<close>

theorem probes_never_raise_witness:
  "fst (locator_waitFor fake_driver (errorMessage new_LoginPage) ''visible'' (Some 3000)
         (start closed_page)) =
     Inl (DriverError ''Target page, context or browser has been closed'')
   \<and> fst (isErrorVisible fake_driver new_LoginPage (start closed_page)) = Inr False
   \<and> fst (page_waitForURL fake_driver ''**/inventory.html'' (Some 5000) (start closed_page)) =
     Inl (DriverError ''Target page, context or browser has been closed'')
   \<and> fst (isLoginSuccessful fake_driver new_LoginPage (start closed_page)) = Inr False"
  using probes_never_raise [of fake_driver "start closed_page"]
  by (simp add: fake_defs run_defs)




section \<open>Properties of the test data\<close>

lemma PRODUCT_PRICES_keys:
  "dom PRODUCT_PRICES =
     {''Sauce Labs Fleece Jacket'', ''Sauce Labs Backpack'', ''Test.allTheThings() T-Shirt (Red)'',
      ''Sauce Labs Bolt T-Shirt'', ''Sauce Labs Bike Light'', ''Sauce Labs Onesie''}"
  by (simp add: PRODUCT_PRICES_def PRODUCTS_def computed_key_def)

lemma PRODUCTS_names:
  "PRODUCTS ''BACKPACK'' = Some ''Sauce Labs Backpack''"
  "PRODUCTS ''BIKE_LIGHT'' = Some ''Sauce Labs Bike Light''"
  "PRODUCTS ''BOLT_TSHIRT'' = Some ''Sauce Labs Bolt T-Shirt''"
  "PRODUCTS ''FLEECE_JACKET'' = Some ''Sauce Labs Fleece Jacket''"
  "PRODUCTS ''ONESIE'' = Some ''Sauce Labs Onesie''"
  "PRODUCTS ''TSHIRT_RED'' = Some ''Test.allTheThings() T-Shirt (Red)''"
  by (simp_all add: PRODUCTS_def)

text \<open>
  C8. Every key of \<^verbatim>\<open>PRODUCT_PRICES\<close> is the display name that \<^verbatim>\<open>PRODUCTS\<close> gives to
  some product id: no price is kept for a name the catalogue does not have.
\<close>

theorem PRODUCT_PRICES_keys_are_PRODUCTS_names:
  "\<forall>name \<in> dom PRODUCT_PRICES. \<exists>id. PRODUCTS id = Some name"
proof
  fix name
  assume "name \<in> dom PRODUCT_PRICES"
  then have "name = ''Sauce Labs Fleece Jacket'' \<or> name = ''Sauce Labs Backpack''
      \<or> name = ''Test.allTheThings() T-Shirt (Red)'' \<or> name = ''Sauce Labs Bolt T-Shirt''
      \<or> name = ''Sauce Labs Bike Light'' \<or> name = ''Sauce Labs Onesie''"
    by (simp only: PRODUCT_PRICES_keys insert_iff empty_iff simp_thms)
  then show "\<exists>id. PRODUCTS id = Some name"
  proof (elim disjE)
    assume "name = ''Sauce Labs Fleece Jacket''"
    with PRODUCTS_names(4) show ?thesis by (intro exI) (simp only:)
  next
    assume "name = ''Sauce Labs Backpack''"
    with PRODUCTS_names(1) show ?thesis by (intro exI) (simp only:)
  next
    assume "name = ''Test.allTheThings() T-Shirt (Red)''"
    with PRODUCTS_names(6) show ?thesis by (intro exI) (simp only:)
  next
    assume "name = ''Sauce Labs Bolt T-Shirt''"
    with PRODUCTS_names(3) show ?thesis by (intro exI) (simp only:)
  next
    assume "name = ''Sauce Labs Bike Light''"
    with PRODUCTS_names(2) show ?thesis by (intro exI) (simp only:)
  next
    assume "name = ''Sauce Labs Onesie''"
    with PRODUCTS_names(5) show ?thesis by (intro exI) (simp only:)
  qed
qed

text \<open>The onesie has a price, and the catalogue has its name.\<close>

theorem PRODUCT_PRICES_keys_are_PRODUCTS_names_witness:
  "PRODUCT_PRICES ''Sauce Labs Onesie'' = Some 7.99
   \<and> (\<exists>id. PRODUCTS id = Some ''Sauce Labs Onesie'')"
proof -
  have price: "PRODUCT_PRICES ''Sauce Labs Onesie'' = Some 7.99"
    by (simp add: PRODUCT_PRICES_def PRODUCTS_def computed_key_def)
  then have "''Sauce Labs Onesie'' \<in> dom PRODUCT_PRICES"
    by (rule domI)
  then have "\<exists>id. PRODUCTS id = Some ''Sauce Labs Onesie''"
    by (rule PRODUCT_PRICES_keys_are_PRODUCTS_names [rule_format])
  with price show ?thesis
    by (rule conjI)
qed

text \<open>
  C9. \<^verbatim>\<open>STANDARD_USER\<close> is an alias of \<^verbatim>\<open>VALID_USER\<close>: the two names hold the same
  reference, both read as the credential \<^verbatim>\<open>standard_user\<close> / \<^verbatim>\<open>secret_sauce\<close>, and in
  every store (whatever is written to it later) the two have the same username and the same
  password.
\<close>

theorem STANDARD_USER_is_VALID_USER:
  "STANDARD_USER = VALID_USER
   \<and> testData_store STANDARD_USER = Some \<lparr>username = ''standard_user'', password = ''secret_sauce''\<rparr>
   \<and> testData_store VALID_USER = Some \<lparr>username = ''standard_user'', password = ''secret_sauce''\<rparr>
   \<and> (\<forall>h :: store. map_option username (h STANDARD_USER) = map_option username (h VALID_USER)
        \<and> map_option password (h STANDARD_USER) = map_option password (h VALID_USER))"
  by (simp add: STANDARD_USER_def VALID_USER_def LOCKED_USER_def INVALID_USER_def testData_store_def)

end
